theory Spec2Isabelle
  imports Main
begin

section \<open>Python values, exceptions and objects\<close>

text \<open>
  The module \<^verbatim>\<open>clearaml/tuning/base.py\<close> never computes with the values it is given: it
  stores them in attributes and hands them on. A value is therefore one of the literals
  the module itself writes (\<^verbatim>\<open>None\<close>, \<^verbatim>\<open>False\<close>, a string), a number, a list, a dict
  (an association list, in insertion order) or a reference to an object the module does
  not look into (a train/validation iterator, say).
\<close>

datatype pyval =
    PyNone
  | PyBool bool
  | PyInt int
  | PyStr string
  | PyList "pyval list"
  | PyDict "(pyval \<times> pyval) list"
  | PyRef nat

text \<open>A raised exception: the name of its class and its message.\<close>

datatype exn = Exn (exn_class: string) (exn_msg: string)

text \<open>The classes the module declares.\<close>

datatype cls = DistributionBase | Choice | Uniform | Normal | ParamsTuner | DefaultTuner

text \<open>
  The data attributes assigned in each class body. \<^verbatim>\<open>ParamsTuner\<close> declares
  \<^verbatim>\<open>_name = "AbstractTuner"\<close>, \<^verbatim>\<open>_best_params = None\<close> and \<^verbatim>\<open>_fit_on_holdout = False\<close>;
  \<^verbatim>\<open>DefaultTuner\<close> redeclares \<^verbatim>\<open>_name = "DefaultTuner"\<close>; the distribution classes declare
  none. Methods and properties are the functions below.
\<close>

fun class_dict :: "cls \<Rightarrow> (string \<rightharpoonup> pyval)" where
  "class_dict ParamsTuner =
     [''_name'' \<mapsto> PyStr ''AbstractTuner'',
      ''_best_params'' \<mapsto> PyNone,
      ''_fit_on_holdout'' \<mapsto> PyBool False]"
| "class_dict DefaultTuner = [''_name'' \<mapsto> PyStr ''DefaultTuner'']"
| "class_dict DistributionBase = Map.empty"
| "class_dict Choice = Map.empty"
| "class_dict Uniform = Map.empty"
| "class_dict Normal = Map.empty"

text \<open>
  The method resolution order of each class, up to the bases \<^verbatim>\<open>ABC\<close> and \<^verbatim>\<open>object\<close>,
  which hold none of the attributes the module reads.
\<close>

fun mro :: "cls \<Rightarrow> cls list" where
  "mro DistributionBase = [DistributionBase]"
| "mro Choice = [Choice, DistributionBase]"
| "mro Uniform = [Uniform, DistributionBase]"
| "mro Normal = [Normal, DistributionBase]"
| "mro ParamsTuner = [ParamsTuner]"
| "mro DefaultTuner = [DefaultTuner, ParamsTuner]"

text \<open>
  The methods a class leaves abstract: \<^verbatim>\<open>ParamsTuner.fit\<close> is an \<^verbatim>\<open>@abstractmethod\<close>,
  and \<^verbatim>\<open>DefaultTuner\<close> overrides it. \<^verbatim>\<open>DistributionBase\<close> derives from \<^verbatim>\<open>ABC\<close> but
  declares no abstract method.
\<close>

fun abstractmethods :: "cls \<Rightarrow> string list" where
  "abstractmethods ParamsTuner = [''fit'']"
| "abstractmethods DefaultTuner = []"
| "abstractmethods DistributionBase = []"
| "abstractmethods Choice = []"
| "abstractmethods Uniform = []"
| "abstractmethods Normal = []"

text \<open>
  An instance: its class, its own attribute dictionary, and the history of the attribute
  stores made on it (oldest first). The history is what lets a statement count the
  writes of a call; none of the module's functions reads it.
\<close>

record pyobj =
  obj_class :: cls
  obj_dict :: "string \<rightharpoonup> pyval"
  obj_stores :: "(string \<times> pyval) list"

text \<open>
  Calling a class: \<^verbatim>\<open>object.__new__\<close> refuses a class with abstract methods
  (\<^verbatim>\<open>TypeError\<close>) and otherwise gives an instance with an empty dictionary. The wording
  of the message differs between Python versions; nothing below depends on it.
\<close>

definition object_new :: "cls \<Rightarrow> exn + pyobj" where
  "object_new c =
     (if abstractmethods c \<noteq> []
      then Inl (Exn ''TypeError'' ''Can not instantiate abstract class'')
      else Inr \<lparr>obj_class = c, obj_dict = Map.empty, obj_stores = []\<rparr>)"

text \<open>
  Attribute lookup for the plain data attributes of this module: the instance's own
  dictionary first, then the class dictionaries along the method resolution order.
\<close>

fun class_lookup :: "cls list \<Rightarrow> string \<Rightarrow> pyval option" where
  "class_lookup [] n = None"
| "class_lookup (c # cs) n =
     (case class_dict c n of Some v \<Rightarrow> Some v | None \<Rightarrow> class_lookup cs n)"

definition attr_lookup :: "pyobj \<Rightarrow> string \<Rightarrow> pyval option" where
  "attr_lookup self n =
     (case obj_dict self n of
        Some v \<Rightarrow> Some v
      | None \<Rightarrow> class_lookup (mro (obj_class self)) n)"

definition hasattr :: "pyobj \<Rightarrow> string \<Rightarrow> bool" where
  "hasattr self n = (attr_lookup self n \<noteq> None)"

definition getattr :: "pyobj \<Rightarrow> string \<Rightarrow> exn + pyval" where
  "getattr self n =
     (case attr_lookup self n of
        None \<Rightarrow> Inl (Exn ''AttributeError'' n)
      | Some v \<Rightarrow> Inr v)"

text \<open>The assignment \<^verbatim>\<open>self.n = v\<close>: an entry of the instance's own dictionary.\<close>

definition setattr :: "pyobj \<Rightarrow> string \<Rightarrow> pyval \<Rightarrow> pyobj" where
  "setattr self n v =
     self\<lparr>obj_dict := (obj_dict self)(n \<mapsto> v), obj_stores := obj_stores self @ [(n, v)]\<rparr>"

text \<open>
  An optional parameter \<^verbatim>\<open>p=d\<close>: the argument is \<open>None\<close> when the caller omits it, and
  the parameter is then bound to the default \<open>d\<close>.
\<close>

definition default_arg :: "pyval \<Rightarrow> pyval option \<Rightarrow> pyval" where
  "default_arg d a = (case a of None \<Rightarrow> d | Some v \<Rightarrow> v)"

section \<open>The tuner\<close>

text \<open>
  The property \<^verbatim>\<open>ParamsTuner.best_params\<close>:
  \<^verbatim>\<open>
    if not hasattr(self, "_best_params"):
        raise AttributeError("ParamsTuner should be fitted first")
    return self._best_params
  \<close>
\<close>

definition best_params :: "pyobj \<Rightarrow> exn + pyval" where
  "best_params self =
     (if \<not> hasattr self ''_best_params''
      then Inl (Exn ''AttributeError'' ''ParamsTuner should be fitted first'')
      else getattr self ''_best_params'')"

text \<open>
  The algorithm \<^verbatim>\<open>ml_algo\<close> comes from \<^verbatim>\<open>clearaml.ml_algo.base\<close>, outside this module; it
  is a parameter. What the tuner uses of it is the method \<^verbatim>\<open>init_params_on_input\<close>: given
  the iterator argument and the state \<open>'w\<close> of everything the algorithm can reach, it
  raises or returns a parameter mapping, and leaves a new state. The tuner instance is
  not part of \<open>'w\<close>: the algorithm holds no reference to the tuner that calls it.
\<close>

type_synonym 'w init_params_on_input = "pyval \<Rightarrow> 'w \<Rightarrow> (exn + pyval) \<times> 'w"

text \<open>
  \<^verbatim>\<open>DefaultTuner.fit(self, ml_algo, train_valid_iterator=None)\<close>:
  \<^verbatim>\<open>
    self._best_params = ml_algo.init_params_on_input(train_valid_iterator=train_valid_iterator)
    return None, None
  \<close>
  The right-hand side is evaluated first; when it raises, the assignment does not happen
  and the exception leaves \<^verbatim>\<open>fit\<close>. The result is the outcome of the call, the tuner
  after it and the algorithm's state after it.
\<close>

definition DefaultTuner_fit ::
  "pyobj \<Rightarrow> 'w init_params_on_input \<Rightarrow> pyval option \<Rightarrow> 'w
     \<Rightarrow> (exn + pyval \<times> pyval) \<times> pyobj \<times> 'w" where
  "DefaultTuner_fit self ml_algo arg w =
     (let train_valid_iterator = default_arg PyNone arg in
      case ml_algo train_valid_iterator w of
        (Inl e, w') \<Rightarrow> (Inl e, self, w')
      | (Inr params, w') \<Rightarrow> (Inr (PyNone, PyNone), setattr self ''_best_params'' params, w'))"

text \<open>The three components of what \<^verbatim>\<open>fit\<close> leaves.\<close>

definition fit_outcome :: "(exn + pyval \<times> pyval) \<times> pyobj \<times> 'w \<Rightarrow> exn + pyval \<times> pyval" where
  "fit_outcome r = fst r"

definition fit_tuner :: "(exn + pyval \<times> pyval) \<times> pyobj \<times> 'w \<Rightarrow> pyobj" where
  "fit_tuner r = fst (snd r)"

definition fit_world :: "(exn + pyval \<times> pyval) \<times> pyobj \<times> 'w \<Rightarrow> 'w" where
  "fit_world r = snd (snd r)"

section \<open>Distribution descriptors\<close>

text \<open>
  \<^verbatim>\<open>Choice.__init__(self, options)\<close> stores its argument. No statement of it can
  raise, so the initialiser is a total function from the instance to the instance.
\<close>

definition Choice_init :: "pyobj \<Rightarrow> pyval \<Rightarrow> pyobj" where
  "Choice_init self options = setattr self ''options'' options"

text \<open>
  \<^verbatim>\<open>Uniform.__init__(self, low, high, q=None, log=False)\<close>: four assignments, in the
  order of the source.
\<close>

definition Uniform_init ::
  "pyobj \<Rightarrow> pyval \<Rightarrow> pyval \<Rightarrow> pyval option \<Rightarrow> pyval option \<Rightarrow> pyobj" where
  "Uniform_init self low high q_arg log_arg =
     (let q = default_arg PyNone q_arg;
          lg = default_arg (PyBool False) log_arg;
          self = setattr self ''low'' low;
          self = setattr self ''high'' high;
          self = setattr self ''q'' q;
          self = setattr self ''log'' lg
      in self)"

text \<open>\<^verbatim>\<open>Normal.__init__(self, low, high, q=None, log=False)\<close>, written out again as in the source.\<close>

definition Normal_init ::
  "pyobj \<Rightarrow> pyval \<Rightarrow> pyval \<Rightarrow> pyval option \<Rightarrow> pyval option \<Rightarrow> pyobj" where
  "Normal_init self low high q_arg log_arg =
     (let q = default_arg PyNone q_arg;
          lg = default_arg (PyBool False) log_arg;
          self = setattr self ''low'' low;
          self = setattr self ''high'' high;
          self = setattr self ''q'' q;
          self = setattr self ''log'' lg
      in self)"

text \<open>
  Calling a class \<^verbatim>\<open>C(args)\<close>: a new instance, or the error of \<^verbatim>\<open>__new__\<close>; then the
  initialiser runs on it.
\<close>

definition instantiate :: "cls \<Rightarrow> (pyobj \<Rightarrow> pyobj) \<Rightarrow> exn + pyobj" where
  "instantiate c init = (case object_new c of Inl e \<Rightarrow> Inl e | Inr self \<Rightarrow> Inr (init self))"

definition Choice_new :: "pyval \<Rightarrow> exn + pyobj" where
  "Choice_new options = instantiate Choice (\<lambda>self. Choice_init self options)"

definition Uniform_new :: "pyval \<Rightarrow> pyval \<Rightarrow> pyval option \<Rightarrow> pyval option \<Rightarrow> exn + pyobj" where
  "Uniform_new low high q_arg log_arg =
     instantiate Uniform (\<lambda>self. Uniform_init self low high q_arg log_arg)"

definition Normal_new :: "pyval \<Rightarrow> pyval \<Rightarrow> pyval option \<Rightarrow> pyval option \<Rightarrow> exn + pyobj" where
  "Normal_new low high q_arg log_arg =
     instantiate Normal (\<lambda>self. Normal_init self low high q_arg log_arg)"

text \<open>The tuner classes define no \<^verbatim>\<open>__init__\<close>: the inherited one stores nothing.\<close>

definition ParamsTuner_new :: "exn + pyobj" where
  "ParamsTuner_new = instantiate ParamsTuner (\<lambda>self. self)"

definition DefaultTuner_new :: "exn + pyobj" where
  "DefaultTuner_new = instantiate DefaultTuner (\<lambda>self. self)"

text \<open>What a constructor call leaves in the instance's own dictionary.\<close>

definition stored_fields :: "exn + pyobj \<Rightarrow> exn + (string \<rightharpoonup> pyval)" where
  "stored_fields r = (case r of Inl e \<Rightarrow> Inl e | Inr self \<Rightarrow> Inr (obj_dict self))"

text \<open>The four attributes of a \<^verbatim>\<open>Uniform\<close> or \<^verbatim>\<open>Normal\<close> instance, read in order.\<close>

definition getattr_fields :: "exn + pyobj \<Rightarrow> pyval list option" where
  "getattr_fields r =
     (case r of
        Inl e \<Rightarrow> None
      | Inr self \<Rightarrow>
          (case (getattr self ''low'', getattr self ''high'', getattr self ''q'', getattr self ''log'') of
             (Inr a, Inr b, Inr c, Inr d) \<Rightarrow> Some [a, b, c, d]
           | _ \<Rightarrow> None))"


section \<open>Observing a call\<close>

text \<open>The attribute stores made on an instance between two of its states.\<close>

definition stores_since :: "pyobj \<Rightarrow> pyobj \<Rightarrow> (string \<times> pyval) list" where
  "stores_since before after = drop (length (obj_stores before)) (obj_stores after)"

definition count_stores :: "string \<Rightarrow> pyobj \<Rightarrow> pyobj \<Rightarrow> nat" where
  "count_stores n before after =
     length (filter (\<lambda>s. fst s = n) (stores_since before after))"

text \<open>
  Test doubles for the algorithm. The first returns the mapping \<open>P\<close> and records every
  iterator argument it receives; its state is the list of the arguments received so far.
  The second returns \<open>P\<close> and has no state. The third raises \<open>e\<close>.
\<close>

definition recording_algo :: "pyval \<Rightarrow> (pyval list) init_params_on_input" where
  "recording_algo P train_valid_iterator calls = (Inr P, calls @ [train_valid_iterator])"

definition constant_algo :: "pyval \<Rightarrow> unit init_params_on_input" where
  "constant_algo P train_valid_iterator w = (Inr P, w)"

definition failing_algo :: "exn \<Rightarrow> unit init_params_on_input" where
  "failing_algo e train_valid_iterator w = (Inl e, w)"

text \<open>A tuner as \<^verbatim>\<open>DefaultTuner()\<close> leaves it.\<close>

definition fresh_DefaultTuner :: pyobj where
  "fresh_DefaultTuner = \<lparr>obj_class = DefaultTuner, obj_dict = Map.empty, obj_stores = []\<rparr>"

section \<open>Reading the result before fitting\<close>

lemma class_lookup_tuner_best_params:
  "c = ParamsTuner \<or> c = DefaultTuner \<Longrightarrow> class_lookup (mro c) ''_best_params'' = Some PyNone"
  by auto

lemma hasattr_best_params_tuner:
  "obj_class self = ParamsTuner \<or> obj_class self = DefaultTuner \<Longrightarrow> hasattr self ''_best_params''"
  using class_lookup_tuner_best_params [of "obj_class self"]
  by (simp add: hasattr_def attr_lookup_def split: option.splits)

text \<open>
  The guard of \<^verbatim>\<open>best_params\<close> never fires on a tuner, whatever its own dictionary holds:
  the class attribute \<^verbatim>\<open>_best_params = None\<close> of \<^verbatim>\<open>ParamsTuner\<close> is always found.
\<close>

lemma best_params_never_raises:
  assumes "obj_class self = ParamsTuner \<or> obj_class self = DefaultTuner"
  shows "\<exists>v. best_params self = Inr v"
proof -
  from assms have "hasattr self ''_best_params''"
    by (rule hasattr_best_params_tuner)
  then obtain v where "attr_lookup self ''_best_params'' = Some v"
    by (auto simp: hasattr_def)
  then show ?thesis
    by (simp add: best_params_def hasattr_def getattr_def)
qed

text \<open>
  C1. The claim: on a freshly constructed tuner, reading \<^verbatim>\<open>best_params\<close> before any
  \<^verbatim>\<open>fit\<close> raises the unfitted-state \<^verbatim>\<open>AttributeError\<close>. The code does not do so:
  \<^verbatim>\<open>DefaultTuner()\<close> is an instance with an empty dictionary, \<^verbatim>\<open>hasattr\<close> finds the class
  attribute, and the property returns \<^verbatim>\<open>None\<close>.
\<close>

theorem fresh_DefaultTuner_best_params_is_None:
  "DefaultTuner_new = Inr fresh_DefaultTuner \<and> best_params fresh_DefaultTuner = Inr PyNone"
  by (simp add: DefaultTuner_new_def instantiate_def object_new_def fresh_DefaultTuner_def
      best_params_def hasattr_def getattr_def attr_lookup_def)


section \<open>The default tuner\<close>

text \<open>
  C2. When \<^verbatim>\<open>init_params_on_input(None)\<close> returns the mapping \<open>P\<close>, the call
  \<^verbatim>\<open>fit(ml_algo)\<close> with the iterator omitted returns the pair \<^verbatim>\<open>(None, None)\<close>, and
  \<^verbatim>\<open>best_params\<close> read afterwards is \<open>P\<close> itself.
\<close>

theorem DefaultTuner_fit_saves_defaults:
  assumes "ml_algo PyNone w = (Inr P, w')"
  shows "fit_outcome (DefaultTuner_fit self ml_algo None w) = Inr (PyNone, PyNone)
       \<and> best_params (fit_tuner (DefaultTuner_fit self ml_algo None w)) = Inr P"
  using assms
  by (simp add: DefaultTuner_fit_def default_arg_def fit_outcome_def fit_tuner_def
      best_params_def hasattr_def getattr_def attr_lookup_def setattr_def)

theorem DefaultTuner_fit_saves_defaults_witness:
  "constant_algo (PyDict [(PyStr ''max_depth'', PyInt 6)]) PyNone ()
     = (Inr (PyDict [(PyStr ''max_depth'', PyInt 6)]), ())
   \<and> fit_outcome (DefaultTuner_fit fresh_DefaultTuner
        (constant_algo (PyDict [(PyStr ''max_depth'', PyInt 6)])) None ())
     = Inr (PyNone, PyNone)
   \<and> best_params (fit_tuner (DefaultTuner_fit fresh_DefaultTuner
        (constant_algo (PyDict [(PyStr ''max_depth'', PyInt 6)])) None ()))
     = Inr (PyDict [(PyStr ''max_depth'', PyInt 6)])"
proof -
  have h: "constant_algo (PyDict [(PyStr ''max_depth'', PyInt 6)]) PyNone ()
      = (Inr (PyDict [(PyStr ''max_depth'', PyInt 6)]), ())"
    by (simp add: constant_algo_def)
  from DefaultTuner_fit_saves_defaults
      [where ml_algo = "constant_algo (PyDict [(PyStr ''max_depth'', PyInt 6)])"
         and w = "()" and self = fresh_DefaultTuner, OF h] h
  show ?thesis by simp
qed

text \<open>
  C4. After \<^verbatim>\<open>fit(A1)\<close> and then \<^verbatim>\<open>fit(A2)\<close> on the same tuner, where the second
  algorithm returns the mapping \<open>P2\<close>, \<^verbatim>\<open>best_params\<close> is \<open>P2\<close>, and the tuner's own
  dictionary is the one before the first call with the single entry \<^verbatim>\<open>_best_params\<close> set to
  \<open>P2\<close>: nothing of the first call's result remains. This holds whatever the first call
  did (returned a mapping or raised).
\<close>

theorem fit_twice_last_call_wins:
  assumes "A2 (default_arg PyNone arg2) (fit_world (DefaultTuner_fit self A1 arg1 w)) = (Inr P2, w2)"
  shows "best_params (fit_tuner (DefaultTuner_fit
           (fit_tuner (DefaultTuner_fit self A1 arg1 w)) A2 arg2
           (fit_world (DefaultTuner_fit self A1 arg1 w)))) = Inr P2
       \<and> obj_dict (fit_tuner (DefaultTuner_fit
           (fit_tuner (DefaultTuner_fit self A1 arg1 w)) A2 arg2
           (fit_world (DefaultTuner_fit self A1 arg1 w))))
         = (obj_dict self)(''_best_params'' \<mapsto> P2)"
proof (cases "A1 (default_arg PyNone arg1) w")
  case (Pair r1 w1)
  then have w1: "fit_world (DefaultTuner_fit self A1 arg1 w) = w1"
    by (simp add: DefaultTuner_fit_def fit_world_def split: sum.splits)
  show ?thesis
  proof (cases r1)
    case (Inl e)
    with Pair have "fit_tuner (DefaultTuner_fit self A1 arg1 w) = self"
      by (simp add: DefaultTuner_fit_def fit_tuner_def)
    with assms w1 show ?thesis
      by (simp add: DefaultTuner_fit_def fit_tuner_def best_params_def hasattr_def
          getattr_def attr_lookup_def setattr_def)
  next
    case (Inr P1)
    with Pair have "fit_tuner (DefaultTuner_fit self A1 arg1 w) = setattr self ''_best_params'' P1"
      by (simp add: DefaultTuner_fit_def fit_tuner_def)
    with assms w1 show ?thesis
      by (simp add: DefaultTuner_fit_def fit_tuner_def best_params_def hasattr_def
          getattr_def attr_lookup_def setattr_def)
  qed
qed

theorem fit_twice_last_call_wins_witness:
  "constant_algo (PyDict [(PyStr ''lr'', PyInt 2)]) (default_arg PyNone None)
      (fit_world (DefaultTuner_fit fresh_DefaultTuner
         (constant_algo (PyDict [(PyStr ''max_depth'', PyInt 6)])) None ()))
     = (Inr (PyDict [(PyStr ''lr'', PyInt 2)]), ())
   \<and> best_params (fit_tuner (DefaultTuner_fit
        (fit_tuner (DefaultTuner_fit fresh_DefaultTuner
           (constant_algo (PyDict [(PyStr ''max_depth'', PyInt 6)])) None ()))
        (constant_algo (PyDict [(PyStr ''lr'', PyInt 2)])) None
        (fit_world (DefaultTuner_fit fresh_DefaultTuner
           (constant_algo (PyDict [(PyStr ''max_depth'', PyInt 6)])) None ()))))
     = Inr (PyDict [(PyStr ''lr'', PyInt 2)])"
proof -
  have h: "constant_algo (PyDict [(PyStr ''lr'', PyInt 2)]) (default_arg PyNone None)
      (fit_world (DefaultTuner_fit fresh_DefaultTuner
         (constant_algo (PyDict [(PyStr ''max_depth'', PyInt 6)])) None ()))
     = (Inr (PyDict [(PyStr ''lr'', PyInt 2)]), ())"
    by (simp add: constant_algo_def)
  from fit_twice_last_call_wins
      [where ?A2.0 = "constant_algo (PyDict [(PyStr ''lr'', PyInt 2)])"
         and ?A1.0 = "constant_algo (PyDict [(PyStr ''max_depth'', PyInt 6)])"
         and ?arg1.0 = None and ?arg2.0 = None and w = "()" and self = fresh_DefaultTuner,
       OF h] h
  show ?thesis by simp
qed

text \<open>
  C5. \<^verbatim>\<open>fit(ml_algo, it)\<close> hands \<open>it\<close> itself to \<^verbatim>\<open>init_params_on_input\<close>, once: the
  algorithm's state after \<^verbatim>\<open>fit\<close> is the state after that one call, and the recording
  double has received exactly \<open>it\<close> (\<^verbatim>\<open>None\<close> when the iterator is omitted).
\<close>

theorem fit_forwards_iterator:
  "fit_world (DefaultTuner_fit self ml_algo (Some it) w) = snd (ml_algo it w)
   \<and> fit_world (DefaultTuner_fit self ml_algo None w) = snd (ml_algo PyNone w)
   \<and> fit_world (DefaultTuner_fit self (recording_algo P) (Some it) calls) = calls @ [it]
   \<and> fit_world (DefaultTuner_fit self (recording_algo P) None calls) = calls @ [PyNone]"
  by (simp add: DefaultTuner_fit_def default_arg_def fit_world_def recording_algo_def
      split: prod.splits sum.splits)

text \<open>
  C6. When \<^verbatim>\<open>init_params_on_input\<close> raises \<open>e\<close>, \<^verbatim>\<open>fit\<close> raises the same \<open>e\<close>, and the
  tuner is the one before the call: no attribute was written, and \<^verbatim>\<open>best_params\<close> reads
  as it did before.
\<close>

theorem fit_error_leaves_tuner_unchanged:
  assumes "ml_algo (default_arg PyNone arg) w = (Inl e, w')"
  shows "DefaultTuner_fit self ml_algo arg w = (Inl e, self, w')
       \<and> best_params (fit_tuner (DefaultTuner_fit self ml_algo arg w)) = best_params self"
  using assms by (simp add: DefaultTuner_fit_def fit_tuner_def)

theorem fit_error_leaves_tuner_unchanged_witness:
  "failing_algo (Exn ''ValueError'' ''no data'') (default_arg PyNone None) () 
     = (Inl (Exn ''ValueError'' ''no data''), ())
   \<and> DefaultTuner_fit fresh_DefaultTuner (failing_algo (Exn ''ValueError'' ''no data'')) None ()
     = (Inl (Exn ''ValueError'' ''no data''), fresh_DefaultTuner, ())"
proof -
  have h: "failing_algo (Exn ''ValueError'' ''no data'') (default_arg PyNone None) () 
     = (Inl (Exn ''ValueError'' ''no data''), ())"
    by (simp add: failing_algo_def)
  from fit_error_leaves_tuner_unchanged
      [where ml_algo = "failing_algo (Exn ''ValueError'' ''no data'')"
         and arg = None and w = "()" and self = fresh_DefaultTuner, OF h] h
  show ?thesis by simp
qed


text \<open>
  C7 as the claim states it: every call to \<^verbatim>\<open>fit\<close> writes \<^verbatim>\<open>_best_params\<close> exactly
  once. It fails on a call whose algorithm raises: on a fresh tuner and an algorithm whose
  \<^verbatim>\<open>init_params_on_input\<close> raises \<^verbatim>\<open>ValueError\<close>, the number of stores to
  \<^verbatim>\<open>_best_params\<close> made during the call is not one (it is zero: the assignment is never
  reached).
\<close>

theorem fit_raising_call_writes_not_once:
  "count_stores ''_best_params'' fresh_DefaultTuner
     (fit_tuner (DefaultTuner_fit fresh_DefaultTuner
        (failing_algo (Exn ''ValueError'' ''no data'')) None ())) \<noteq> 1"
  by (simp add: count_stores_def stores_since_def fit_tuner_def DefaultTuner_fit_def
      failing_algo_def fresh_DefaultTuner_def)

text \<open>
  C7, amended. The attribute stores a call to \<^verbatim>\<open>fit\<close> makes on the tuner are: the single
  store of the returned mapping to \<^verbatim>\<open>_best_params\<close> when \<^verbatim>\<open>init_params_on_input\<close>
  returns, and none when it raises. In both cases every other attribute is as before:
  \<^verbatim>\<open>_name\<close> and \<^verbatim>\<open>_fit_on_holdout\<close> read the same, the class is the same, and the
  tuner's own dictionary agrees with the old one everywhere but at \<^verbatim>\<open>_best_params\<close>.
\<close>

theorem fit_writes_best_params_only:
  "stores_since self (fit_tuner (DefaultTuner_fit self ml_algo arg w))
     = (case fst (ml_algo (default_arg PyNone arg) w) of
          Inl e \<Rightarrow> []
        | Inr P \<Rightarrow> [(''_best_params'', P)])
   \<and> count_stores ''_best_params'' self (fit_tuner (DefaultTuner_fit self ml_algo arg w))
     = (case fst (ml_algo (default_arg PyNone arg) w) of Inl e \<Rightarrow> 0 | Inr P \<Rightarrow> 1)
   \<and> attr_lookup (fit_tuner (DefaultTuner_fit self ml_algo arg w)) ''_name''
     = attr_lookup self ''_name''
   \<and> attr_lookup (fit_tuner (DefaultTuner_fit self ml_algo arg w)) ''_fit_on_holdout''
     = attr_lookup self ''_fit_on_holdout''
   \<and> obj_class (fit_tuner (DefaultTuner_fit self ml_algo arg w)) = obj_class self
   \<and> obj_dict (fit_tuner (DefaultTuner_fit self ml_algo arg w)) |` (- {''_best_params''})
     = obj_dict self |` (- {''_best_params''})"
proof (cases "ml_algo (default_arg PyNone arg) w")
  case (Pair r w')
  show ?thesis
  proof (cases r)
    case (Inl e)
    with Pair have "fit_tuner (DefaultTuner_fit self ml_algo arg w) = self"
      by (simp add: DefaultTuner_fit_def fit_tuner_def)
    with Pair Inl show ?thesis
      by (simp add: stores_since_def count_stores_def)
  next
    case (Inr P)
    with Pair have "fit_tuner (DefaultTuner_fit self ml_algo arg w)
        = setattr self ''_best_params'' P"
      by (simp add: DefaultTuner_fit_def fit_tuner_def)
    with Pair Inr show ?thesis
      by (simp add: stores_since_def count_stores_def setattr_def attr_lookup_def
          split: option.splits)
  qed
qed

section \<open>The distribution descriptors\<close>

text \<open>
  C3. Each descriptor gives back the arguments it was constructed with:
  \<^verbatim>\<open>Uniform(low, high, q, log)\<close> has the attributes \<^verbatim>\<open>low\<close>, \<^verbatim>\<open>high\<close>, \<^verbatim>\<open>q\<close>,
  \<^verbatim>\<open>log\<close> equal to the arguments, \<^verbatim>\<open>Choice(options)\<close> has \<^verbatim>\<open>options\<close> equal to
  its argument (the same list, in the same order), and \<^verbatim>\<open>Normal\<close> is as \<^verbatim>\<open>Uniform\<close>.
\<close>

theorem descriptors_round_trip:
  "(\<exists>u. Uniform_new low high (Some q) (Some lg) = Inr u
        \<and> getattr u ''low'' = Inr low \<and> getattr u ''high'' = Inr high
        \<and> getattr u ''q'' = Inr q \<and> getattr u ''log'' = Inr lg)
   \<and> (\<exists>c. Choice_new options = Inr c \<and> getattr c ''options'' = Inr options)
   \<and> (\<exists>n. Normal_new low high (Some q) (Some lg) = Inr n
        \<and> getattr n ''low'' = Inr low \<and> getattr n ''high'' = Inr high
        \<and> getattr n ''q'' = Inr q \<and> getattr n ''log'' = Inr lg)"
  by (simp add: Uniform_new_def Normal_new_def Choice_new_def instantiate_def object_new_def
      Uniform_init_def Normal_init_def Choice_init_def default_arg_def setattr_def
      getattr_def attr_lookup_def Let_def)

text \<open>
  C8. Every constructor call succeeds, whatever the argument values are, and all it does
  is store each argument (or its default) on the new instance, in the order of the
  source: the instance's history of stores holds nothing else. No argument is compared
  or inspected.
\<close>

theorem descriptor_construction_total:
  "Choice_new options
     = Inr \<lparr>obj_class = Choice,
            obj_dict = [''options'' \<mapsto> options],
            obj_stores = [(''options'', options)]\<rparr>
   \<and> Uniform_new low high q_arg log_arg
     = Inr \<lparr>obj_class = Uniform,
            obj_dict = [''low'' \<mapsto> low, ''high'' \<mapsto> high,
                        ''q'' \<mapsto> default_arg PyNone q_arg,
                        ''log'' \<mapsto> default_arg (PyBool False) log_arg],
            obj_stores = [(''low'', low), (''high'', high),
                          (''q'', default_arg PyNone q_arg),
                          (''log'', default_arg (PyBool False) log_arg)]\<rparr>
   \<and> Normal_new low high q_arg log_arg
     = Inr \<lparr>obj_class = Normal,
            obj_dict = [''low'' \<mapsto> low, ''high'' \<mapsto> high,
                        ''q'' \<mapsto> default_arg PyNone q_arg,
                        ''log'' \<mapsto> default_arg (PyBool False) log_arg],
            obj_stores = [(''low'', low), (''high'', high),
                          (''q'', default_arg PyNone q_arg),
                          (''log'', default_arg (PyBool False) log_arg)]\<rparr>"
  by (simp add: Uniform_new_def Normal_new_def Choice_new_def instantiate_def object_new_def
      Uniform_init_def Normal_init_def Choice_init_def setattr_def Let_def)

text \<open>
  The inputs a validating constructor would refuse: a range with \<open>low > high\<close>, a step
  \<open>q \<le> 0\<close>, an empty list of options.
\<close>

lemma unvalidated_arguments_accepted:
  "getattr_fields (Uniform_new (PyInt 10) (PyInt 1) (Some (PyInt 0)) None)
     = Some [PyInt 10, PyInt 1, PyInt 0, PyBool False]"
  "getattr_fields (Normal_new (PyInt 10) (PyInt 1) (Some (PyInt (- 2))) (Some (PyBool True)))
     = Some [PyInt 10, PyInt 1, PyInt (- 2), PyBool True]"
  "stored_fields (Choice_new (PyList [])) = Inr [''options'' \<mapsto> PyList []]"
  by (simp_all add: getattr_fields_def stored_fields_def Uniform_new_def Normal_new_def
      Choice_new_def instantiate_def object_new_def Uniform_init_def Normal_init_def
      Choice_init_def default_arg_def setattr_def getattr_def attr_lookup_def Let_def)

text \<open>
  C9. \<^verbatim>\<open>Normal\<close> has the constructor of \<^verbatim>\<open>Uniform\<close>: the two initialisers are the same
  function, and the two constructor calls are the same function from the arguments
  (given or omitted) to the stored fields.
\<close>

theorem Normal_stores_as_Uniform:
  "Normal_init = Uniform_init
   \<and> (\<lambda>low high q_arg log_arg. stored_fields (Normal_new low high q_arg log_arg))
     = (\<lambda>low high q_arg log_arg. stored_fields (Uniform_new low high q_arg log_arg))"
  by (intro conjI ext)
     (simp_all add: Normal_init_def Uniform_init_def stored_fields_def Normal_new_def
        Uniform_new_def instantiate_def object_new_def setattr_def Let_def)

text \<open>
  C10. The defaults the source declares: an omitted \<^verbatim>\<open>q\<close> is stored as \<^verbatim>\<open>None\<close> and an
  omitted \<^verbatim>\<open>log\<close> as \<^verbatim>\<open>False\<close>, in \<^verbatim>\<open>Uniform\<close> and in \<^verbatim>\<open>Normal\<close>; \<^verbatim>\<open>fit\<close> without
  an iterator is \<^verbatim>\<open>fit\<close> with the iterator \<^verbatim>\<open>None\<close>; the class attributes of
  \<^verbatim>\<open>ParamsTuner\<close> are the name \<^verbatim>\<open>"AbstractTuner"\<close> and the holdout flag \<^verbatim>\<open>False\<close>, and a
  \<^verbatim>\<open>DefaultTuner\<close> reads the name \<^verbatim>\<open>"DefaultTuner"\<close> and the holdout flag \<^verbatim>\<open>False\<close>.
\<close>

theorem declared_defaults:
  "(\<exists>u. Uniform_new low high None None = Inr u
        \<and> getattr u ''q'' = Inr PyNone \<and> getattr u ''log'' = Inr (PyBool False))
   \<and> (\<exists>u. Uniform_new low high (Some q) None = Inr u \<and> getattr u ''log'' = Inr (PyBool False))
   \<and> (\<exists>u. Uniform_new low high None (Some lg) = Inr u \<and> getattr u ''q'' = Inr PyNone)
   \<and> (\<exists>n. Normal_new low high None None = Inr n
        \<and> getattr n ''q'' = Inr PyNone \<and> getattr n ''log'' = Inr (PyBool False))
   \<and> (\<exists>n. Normal_new low high (Some q) None = Inr n \<and> getattr n ''log'' = Inr (PyBool False))
   \<and> (\<exists>n. Normal_new low high None (Some lg) = Inr n \<and> getattr n ''q'' = Inr PyNone)
   \<and> DefaultTuner_fit self ml_algo None w = DefaultTuner_fit self ml_algo (Some PyNone) w
   \<and> class_dict ParamsTuner ''_name'' = Some (PyStr ''AbstractTuner'')
   \<and> class_dict ParamsTuner ''_fit_on_holdout'' = Some (PyBool False)
   \<and> class_dict DefaultTuner ''_name'' = Some (PyStr ''DefaultTuner'')
   \<and> getattr fresh_DefaultTuner ''_name'' = Inr (PyStr ''DefaultTuner'')
   \<and> getattr fresh_DefaultTuner ''_fit_on_holdout'' = Inr (PyBool False)"
  by (simp add: Uniform_new_def Normal_new_def instantiate_def object_new_def
      Uniform_init_def Normal_init_def default_arg_def setattr_def
      getattr_def attr_lookup_def DefaultTuner_fit_def fresh_DefaultTuner_def Let_def)

end
